theory Spec2Isabelle
  imports Main
begin

section \<open>Data model\<close>

text \<open>
  The payloads are the JSON objects of the streaming API. A field the code tests for
  presence is an \<open>option\<close>; a field it dereferences without a test is required, and
  where the object that holds it may be absent the dereference is a \<open>TypeError\<close> of
  the model. Several objects have a field \<open>id_str\<close>, \<open>url\<close> or \<open>extended_entities\<close>:
  the tweet keeps the source's name and the others carry their owner as a prefix.
  A string is the sequence of the bytes of its UTF-8 encoding.
\<close>

datatype js_error = TypeError | Error string

text \<open>A settled promise: resolved with a value or rejected with an error.\<close>

datatype 'a promise = Resolved 'a | Rejected js_error

record twitter_user =
  user_id_str :: string
  screen_name :: string

record variant =
  variant_url :: string

record video_information =
  variants :: "variant list"

record media_entity =
  media_type :: string
  media_url_https :: string
  url :: string
  video_info :: "video_information option"

record entities =
  media :: "media_entity list"

record extended =
  full_text :: string
  extended_tweet_extended_entities :: "entities option"

datatype tweet = Tweet
  (id_str: string)
  (user: twitter_user)
  (in_reply_to_user_id_str: "string option")
  (retweeted_status: "tweet option")
  (truncated: bool)
  (tweet_text: string)
  (extended_tweet: "extended option")
  (extended_entities: "entities option")

record deleted_status =
  status_id_str :: string

record delete_notice =
  status :: "deleted_status option"

text \<open>
  ``The JSON structure is completely different on a deletion'': a payload either has
  the field \<open>delete\<close> (a deletion notice) or is a post.
\<close>

datatype payload = Deletion delete_notice | Post tweet

definition delete :: "payload \<Rightarrow> delete_notice option" where
  "delete p = (case p of Deletion d \<Rightarrow> Some d | Post t \<Rightarrow> None)"

text \<open>An entry of \<open>mediaUrls\<close>: \<open>{ image }\<close> for a photo, \<open>{ video, image }\<close> for a gif.\<close>

record media_url =
  video :: "string option"
  image :: string

text \<open>A record of the delivered-message index (\<open>TweetsModel\<close>).\<close>

record message =
  channel_id :: string
  message_id :: string

record tweet_record =
  messages :: "message list option"

record feed =
  twitter_id :: string

text \<open>An argument of \<open>console.log\<close>, \<open>console.warn\<close> or \<open>console.error\<close>.\<close>

datatype logged = LErr js_error | LStr string | LNum int | LNull

text \<open>
  Every call that leaves the process (console, file system, chat platform, persistence,
  streaming transport) is an event appended to the world's \<open>effects\<close>.
\<close>

datatype event =
    ConsoleLog "logged list"
  | ConsoleWarn "logged list"
  | ConsoleError "logged list"
  | WriteFileSync string tweet
  | DiscordSend tweet string
  | TweetsFindOne string
  | FetchDelete string string
  | ProcessExit int
  | TwitterClose
  | FeedsFind
  | TwitterStream string "string list" bool
  | Unlink string

record connection_obj =
  request :: "unit option"

text \<open>
  The process-wide mutable state: \<open>utils.ids\<close>, \<open>utils.reload\<close>, the handler module's
  \<open>recentTweets\<close>, \<open>twitter.connection\<close>, and the effects so far.
\<close>

record world =
  ids :: "string list"
  reload :: bool
  recentTweets :: "string list"
  connection :: "connection_obj option"
  effects :: "event list"

text \<open>
  The collaborators that are not part of the repository's sources, as parameters:
  the entity decoder, the file system's answer to a write, the batch operation
  \<open>utils.promiseSome\<close>, the two persistence queries, the HTTP client and the bot token.
  Of \<open>discordClient.send\<close> the handler sees only whether the call returns (\<open>None\<close>) or
  throws (\<open>Some e\<close>); what it returns is ignored.
\<close>

record env =
  decode :: "string \<Rightarrow> string"
  writeFileSync :: "string \<Rightarrow> js_error option"
  promiseSome :: "unit promise list \<Rightarrow> unit promise"
  send_throws :: "tweet \<Rightarrow> string \<Rightarrow> js_error option"
  findOne :: "string \<Rightarrow> tweet_record option promise"
  fetch :: "string \<Rightarrow> unit promise"
  DISCORD_BOT_TOKEN :: string
  feeds_find :: "feed list promise"

definition emit :: "event \<Rightarrow> world \<Rightarrow> world" where
  "emit e w = w\<lparr>effects := effects w @ [e]\<rparr>"

text \<open>The effects a step added to those of the world it started from.\<close>

definition new_effects :: "world \<Rightarrow> world \<Rightarrow> event list" where
  "new_effects w w' = drop (length (effects w)) (effects w')"

section \<open>Promise chains\<close>

text \<open>
  \<open>p.then(f)\<close> runs \<open>f\<close> when \<open>p\<close> resolves and passes a rejection on; \<open>p.catch(h)\<close>
  runs \<open>h\<close> when \<open>p\<close> rejects and passes a resolution on. A handler that returns
  resolves the chained promise, one that throws rejects it, so a handler is a function
  to a settled promise and the world it leaves.
\<close>

definition promise_then ::
  "'a promise \<times> world \<Rightarrow> ('a \<Rightarrow> world \<Rightarrow> 'b promise \<times> world) \<Rightarrow> 'b promise \<times> world" where
  "promise_then pw f = (case pw of (Resolved v, w) \<Rightarrow> f v w | (Rejected e, w) \<Rightarrow> (Rejected e, w))"

definition promise_catch ::
  "'a promise \<times> world \<Rightarrow> (js_error \<Rightarrow> world \<Rightarrow> 'a promise \<times> world) \<Rightarrow> 'a promise \<times> world" where
  "promise_catch pw h = (case pw of (Resolved v, w) \<Rightarrow> (Resolved v, w) | (Rejected e, w) \<Rightarrow> h e w)"

section \<open>String operations of the language\<close>

text \<open>
  \<open>String.prototype.replace\<close> with a string pattern: the first occurrence only, and the
  replacement text is a template in which \<open>$$\<close>, \<open>$&\<close>, \<open>$`\<close> and \<open>$'\<close> stand for a
  dollar sign, the match, the text before it and the text after it (there are no
  capture groups, so \<open>$1\<close> and \<open>$<\<close> stay as they are).
\<close>

fun split_first :: "string \<Rightarrow> string \<Rightarrow> (string \<times> string) option" where
  "split_first p [] = (if p = [] then Some ([], []) else None)"
| "split_first p (c # s) =
     (if take (length p) (c # s) = p then Some ([], drop (length p) (c # s))
      else (case split_first p s of None \<Rightarrow> None | Some (b, a) \<Rightarrow> Some (c # b, a)))"

fun get_substitution :: "string \<Rightarrow> string \<Rightarrow> string \<Rightarrow> string \<Rightarrow> string" where
  "get_substitution m b a [] = []"
| "get_substitution m b a [c] = [c]"
| "get_substitution m b a (c # d # t) =
     (if c = CHR ''$'' then
        (if d = CHR ''$'' then CHR ''$'' # get_substitution m b a t
         else if d = CHR ''&'' then m @ get_substitution m b a t
         else if d = CHR 0x60 then b @ get_substitution m b a t
         else if d = CHR 0x27 then a @ get_substitution m b a t
         else c # get_substitution m b a (d # t))
      else c # get_substitution m b a (d # t))"

definition js_replace :: "string \<Rightarrow> string \<Rightarrow> string \<Rightarrow> string" where
  "js_replace s p t =
     (case split_first p s of None \<Rightarrow> s | Some (b, a) \<Rightarrow> b @ get_substitution p b a t @ a)"

text \<open>
  \<open>String.prototype.trim\<close> strips the white space and line terminator code points from
  both ends: U+0009 to U+000D, U+0020, U+00A0, U+1680, U+2000 to U+200A, U+2028, U+2029,
  U+202F, U+205F, U+3000 and U+FEFF, here in their UTF-8 encodings.
\<close>

definition js_white_space :: "string list" where
  "js_white_space =
     [[CHR 0x09], [CHR 0x0A], [CHR 0x0B], [CHR 0x0C], [CHR 0x0D], [CHR 0x20],
      [CHR 0xC2, CHR 0xA0],
      [CHR 0xE1, CHR 0x9A, CHR 0x80],
      [CHR 0xE2, CHR 0x80, CHR 0x80], [CHR 0xE2, CHR 0x80, CHR 0x81],
      [CHR 0xE2, CHR 0x80, CHR 0x82], [CHR 0xE2, CHR 0x80, CHR 0x83],
      [CHR 0xE2, CHR 0x80, CHR 0x84], [CHR 0xE2, CHR 0x80, CHR 0x85],
      [CHR 0xE2, CHR 0x80, CHR 0x86], [CHR 0xE2, CHR 0x80, CHR 0x87],
      [CHR 0xE2, CHR 0x80, CHR 0x88], [CHR 0xE2, CHR 0x80, CHR 0x89],
      [CHR 0xE2, CHR 0x80, CHR 0x8A],
      [CHR 0xE2, CHR 0x80, CHR 0xA8], [CHR 0xE2, CHR 0x80, CHR 0xA9],
      [CHR 0xE2, CHR 0x80, CHR 0xAF],
      [CHR 0xE2, CHR 0x81, CHR 0x9F],
      [CHR 0xE3, CHR 0x80, CHR 0x80],
      [CHR 0xEF, CHR 0xBB, CHR 0xBF]]"

text \<open>The length of the white space code point a string starts or ends with, 0 if none.\<close>

definition leading_space :: "string \<Rightarrow> nat" where
  "leading_space s =
     (case filter (\<lambda>ws. take (length ws) s = ws) js_white_space of
        [] \<Rightarrow> 0
      | ws # rest \<Rightarrow> length ws)"

definition trailing_space :: "string \<Rightarrow> nat" where
  "trailing_space s =
     (case filter (\<lambda>ws. drop (length s - length ws) s = ws) js_white_space of
        [] \<Rightarrow> 0
      | ws # rest \<Rightarrow> length ws)"

function trimStart :: "string \<Rightarrow> string" where
  "trimStart s = (if leading_space s = 0 then s else trimStart (drop (leading_space s) s))"
  by pat_completeness auto
termination
proof (relation "measure length")
  show "wf (measure length)" by simp
next
  fix s :: string
  assume a: "leading_space s \<noteq> 0"
  have "leading_space [] = 0" by (simp add: leading_space_def js_white_space_def)
  with a have "s \<noteq> []" by auto
  with a show "(drop (leading_space s) s, s) \<in> measure length" by simp
qed

function trimEnd :: "string \<Rightarrow> string" where
  "trimEnd s =
     (if trailing_space s = 0 then s else trimEnd (take (length s - trailing_space s) s))"
  by pat_completeness auto
termination
proof (relation "measure length")
  show "wf (measure length)" by simp
next
  fix s :: string
  assume a: "trailing_space s \<noteq> 0"
  have "trailing_space [] = 0" by (simp add: trailing_space_def js_white_space_def)
  with a have "s \<noteq> []" by auto
  with a show "(take (length s - trailing_space s) s, s) \<in> measure length" by simp
qed

definition js_trim :: "string \<Rightarrow> string" where
  "js_trim s = trimEnd (trimStart s)"

text \<open>A number in a template literal: its decimal digits.\<close>

definition digit_char :: "nat \<Rightarrow> char" where
  "digit_char d = ''0123456789'' ! d"

function show_nat :: "nat \<Rightarrow> string" where
  "show_nat n =
     (if n < 10 then [digit_char n] else show_nat (n div 10) @ [digit_char (n mod 10)])"
  by pat_completeness auto
termination
  by (relation "measure id") auto

section \<open>The post handler (tweetHandler)\<close>

subsection \<open>The filters\<close>

text \<open>
  The dedup gate (``keeps last 20 tweet ids in memory; manual posts bypass this
  check''): \<open>None\<close> when the post is a duplicate and the handler returns, otherwise
  the window as the gate leaves it. \<open>push\<close> appends, \<open>shift\<close> removes the first entry.
\<close>

definition dedup_gate :: "bool \<Rightarrow> string \<Rightarrow> string list \<Rightarrow> string list option" where
  "dedup_gate manual i recent =
     (if \<not> manual then
        (if i \<in> set recent then None
         else (let pushed = recent @ [i]
               in Some (if length pushed > 20 then tl pushed else pushed)))
      else Some recent)"

definition archive_path :: "tweet \<Rightarrow> bool \<Rightarrow> string" where
  "archive_path tweet manual =
     ''./tweets/'' @ screen_name (user tweet) @ ''-'' @ id_str tweet
       @ (if manual then ''-man'' else []) @ ''.json''"

text \<open>A reply to another user; an empty string is falsy, as an absent field is.\<close>

definition non_self_reply :: "tweet \<Rightarrow> bool" where
  "non_self_reply tweet =
     (case in_reply_to_user_id_str tweet of
        None \<Rightarrow> False
      | Some r \<Rightarrow> r \<noteq> [] \<and> r \<noteq> user_id_str (user tweet))"

subsection \<open>Context, text and media\<close>

text \<open>\<open>const context = tweet.retweeted_status || tweet\<close>\<close>

definition tweet_context :: "tweet \<Rightarrow> tweet" where
  "tweet_context tweet = (case retweeted_status tweet of Some rt \<Rightarrow> rt | None \<Rightarrow> tweet)"

text \<open>
  The pair \<open>(text, extendedEntities)\<close>. The flag is the outer post's; the fields are
  the context's, and reading \<open>full_text\<close> of an absent \<open>extended_tweet\<close> throws.
\<close>

definition text_and_entities :: "tweet \<Rightarrow> js_error + (string \<times> entities option)" where
  "text_and_entities tweet =
     (if truncated tweet then
        (case extended_tweet (tweet_context tweet) of
           None \<Rightarrow> Inl TypeError
         | Some et \<Rightarrow> Inr (full_text et, extended_tweet_extended_entities et))
      else Inr (tweet_text (tweet_context tweet), extended_entities (tweet_context tweet)))"

text \<open>
  ``Only escape once'': the state is \<open>(escapedUrls, modifiedText)\<close>; a URL that is not
  yet in \<open>escapedUrls\<close> is pushed and its first occurrence replaced by \<open><url>\<close>.
\<close>

definition escape_url :: "string \<Rightarrow> string list \<times> string \<Rightarrow> string list \<times> string" where
  "escape_url u st =
     (case st of (escapedUrls, modifiedText) \<Rightarrow>
        if u \<in> set escapedUrls then (escapedUrls, modifiedText)
        else (escapedUrls @ [u], js_replace modifiedText u (''<'' @ u @ ''>'')))"

text \<open>The locals of the two loops: \<open>(mediaUrls, escapedUrls, modifiedText)\<close>.\<close>

type_synonym extraction = "media_url list \<times> string list \<times> string"

definition photo_step :: "media_entity \<Rightarrow> extraction \<Rightarrow> extraction" where
  "photo_step m st =
     (case st of (mediaUrls, esc) \<Rightarrow>
        (mediaUrls @ [\<lparr>video = None, image = media_url_https m\<rparr>], escape_url (url m) esc))"

text \<open>\<open>media.video_info.variants[0].url\<close>: a \<open>TypeError\<close> without \<open>video_info\<close> or variants.\<close>

definition first_variant_url :: "media_entity \<Rightarrow> js_error + string" where
  "first_variant_url m =
     (case video_info m of
        None \<Rightarrow> Inl TypeError
      | Some vi \<Rightarrow> (case variants vi of [] \<Rightarrow> Inl TypeError | v # vs \<Rightarrow> Inr (variant_url v)))"

definition gif_step :: "string \<Rightarrow> media_entity \<Rightarrow> extraction \<Rightarrow> extraction" where
  "gif_step v m st =
     (case st of (mediaUrls, esc) \<Rightarrow>
        (mediaUrls @ [\<lparr>video = Some v, image = media_url_https m\<rparr>], escape_url (url m) esc))"

fun gif_loop :: "media_entity list \<Rightarrow> extraction \<Rightarrow> js_error + extraction" where
  "gif_loop [] st = Inr st"
| "gif_loop (m # ms) st =
     (case first_variant_url m of
        Inl e \<Rightarrow> Inl e
      | Inr v \<Rightarrow> gif_loop ms (gif_step v m st))"

definition extract_media :: "entities option \<Rightarrow> string \<Rightarrow> js_error + extraction" where
  "extract_media extendedEntities modifiedText =
     (case extendedEntities of
        None \<Rightarrow> Inr ([], [], modifiedText)
      | Some ee \<Rightarrow>
          gif_loop (filter (\<lambda>m. media_type m = ''animated_gif'') (media ee))
            (foldl (\<lambda>st m. photo_step m st) ([], [], modifiedText)
               (filter (\<lambda>m. media_type m = ''photo'') (media ee))))"

subsection \<open>The display string\<close>

definition display_string :: "tweet \<Rightarrow> string \<Rightarrow> string" where
  "display_string tweet modifiedText =
     (let str = ''```qml'' @ [CHR 0x0A] @ ''New Tweet from '' @ screen_name (user tweet) @ '':```''
                  @ ''<https://twitter.com/'' @ screen_name (user tweet) @ ''/status/''
                  @ id_str tweet @ ''>'' @ [CHR 0x0A]
      in if modifiedText \<noteq> [] then
           (let nameRT = (case retweeted_status tweet of
                            Some rt \<Rightarrow> Some (screen_name (user rt))
                          | None \<Rightarrow> None)
            in str @ [CHR 0x0A]
                 @ (case nameRT of
                      Some n \<Rightarrow> (if n \<noteq> [] then ''RT @'' @ n @ '': '' else [])
                    | None \<Rightarrow> [])
                 @ modifiedText @ [CHR 0x0A])
         else str)"

text \<open>Lines 61 to 130: \<open>(mediaUrls, str)\<close>, or the error thrown on the way.\<close>

definition build_message :: "env \<Rightarrow> tweet \<Rightarrow> js_error + (media_url list \<times> string)" where
  "build_message env tweet =
     (case text_and_entities tweet of
        Inl e \<Rightarrow> Inl e
      | Inr (text, extendedEntities) \<Rightarrow>
          (case extract_media extendedEntities (decode env text) of
             Inl e \<Rightarrow> Inl e
           | Inr (mediaUrls, escapedUrls, modifiedText) \<Rightarrow>
               Inr (mediaUrls, display_string tweet (js_trim modifiedText))))"

subsection \<open>Delivery\<close>

definition processMediaEntry :: "media_url \<Rightarrow> string \<Rightarrow> unit promise" where
  "processMediaEntry m i = Resolved ()"

text \<open>
  A continuation whose body is the call \<open>discordClient.send(tweet, str)\<close>: the call is
  recorded; the continuation resolves when the call returns and rejects with what it
  throws.
\<close>

definition discordClient_send :: "env \<Rightarrow> tweet \<Rightarrow> string \<Rightarrow> world \<Rightarrow> unit promise \<times> world" where
  "discordClient_send env tweet str w =
     (case send_throws env tweet str of None \<Rightarrow> Resolved () | Some e \<Rightarrow> Rejected e,
      emit (DiscordSend tweet str) w)"

text \<open>Lines 132 to 144: the media batch, then delivery from either continuation.\<close>

definition dispatch :: "env \<Rightarrow> tweet \<Rightarrow> media_url list \<Rightarrow> string \<Rightarrow> world \<Rightarrow> world" where
  "dispatch env tweet mediaUrls str w =
     snd (promise_catch
            (promise_then
               (promiseSome env (map (\<lambda>m. processMediaEntry m (id_str tweet)) mediaUrls), w)
               (\<lambda>u w1. discordClient_send env tweet str w1))
            (\<lambda>err w1.
               discordClient_send env tweet str (emit (ConsoleError [LErr err]) w1)))"

subsection \<open>Deletions\<close>

definition message_uri :: "message \<Rightarrow> string" where
  "message_uri msg =
     ''https://discordapp.com/api/channels/'' @ channel_id msg @ ''/messages/'' @ message_id msg"

text \<open>
  The \<open>forEach\<close> issues one DELETE request per message; each request's promise settles
  later and a rejection is given to \<open>console.error\<close>. The settlements are taken in the
  order of the requests.
\<close>

definition fetch_settled :: "env \<Rightarrow> message \<Rightarrow> world \<Rightarrow> world" where
  "fetch_settled env msg w =
     snd (promise_catch
            (promise_then (fetch env (message_uri msg), w) (\<lambda>u w1. (Resolved (), w1)))
            (\<lambda>e w1. (Resolved (), emit (ConsoleError [LErr e]) w1)))"

definition delete_messages :: "env \<Rightarrow> message list \<Rightarrow> world \<Rightarrow> world" where
  "delete_messages env msgs w =
     foldl (\<lambda>w1 msg. fetch_settled env msg w1)
       (foldl (\<lambda>w1 msg. emit (FetchDelete (message_uri msg) (''Bot '' @ DISCORD_BOT_TOKEN env)) w1)
          w msgs)
       msgs"

text \<open>
  \<open>deleteTweet\<close> gives its completion (\<open>None\<close>: it returned) and the world. The guard
  returns on an absent payload, an absent \<open>delete\<close> and an absent \<open>delete.status\<close>.
\<close>

definition deleteTweet :: "env \<Rightarrow> payload option \<Rightarrow> world \<Rightarrow> js_error option \<times> world" where
  "deleteTweet env tweet w =
     (case tweet of
        None \<Rightarrow> (None, w)
      | Some p \<Rightarrow>
          (case delete p of
             None \<Rightarrow> (None, w)
           | Some d \<Rightarrow>
               (case status d of
                  None \<Rightarrow> (None, w)
                | Some s \<Rightarrow>
                    (None,
                     snd (promise_catch
                            (promise_then
                               (findOne env (status_id_str s),
                                emit (TweetsFindOne (status_id_str s)) w)
                               (\<lambda>result w1.
                                  (case result of
                                     None \<Rightarrow> (Resolved (), w1)
                                   | Some r \<Rightarrow>
                                       (case messages r of
                                          None \<Rightarrow> (Resolved (), w1)
                                        | Some msgs \<Rightarrow>
                                            (Resolved (), delete_messages env msgs w1)))))
                            (\<lambda>e w1. (Resolved (), emit (ConsoleError [LErr e]) w1)))))))"

subsection \<open>The handler\<close>

text \<open>
  \<open>module.exports = (tweet, manual) => ...\<close>: the completion (\<open>None\<close> when the handler
  returned, \<open>Some e\<close> when it threw \<open>e\<close>) and the world it leaves. The log line of a
  deletion reads \<open>tweet.delete.status.id_str\<close> before \<open>deleteTweet\<close> is called.
\<close>

definition tweetHandler :: "env \<Rightarrow> payload \<Rightarrow> bool \<Rightarrow> world \<Rightarrow> js_error option \<times> world" where
  "tweetHandler env p manual w =
     (case p of
        Deletion d \<Rightarrow>
          (case status d of
             None \<Rightarrow> (Some TypeError, w)
           | Some s \<Rightarrow> deleteTweet env (Some p) w)
      | Post tweet \<Rightarrow>
          if user_id_str (user tweet) \<notin> set (ids w) then (None, w)
          else
            (case dedup_gate manual (id_str tweet) (recentTweets w) of
               None \<Rightarrow> (None, w)
             | Some recent \<Rightarrow>
                 (let w1 = w\<lparr>recentTweets := recent\<rparr>
                  in case writeFileSync env (archive_path tweet manual) of
                       Some e \<Rightarrow> (Some e, w1)
                     | None \<Rightarrow>
                         (let w2 = emit (WriteFileSync (archive_path tweet manual) tweet) w1
                          in if non_self_reply tweet then (None, w2)
                             else
                               (case build_message env tweet of
                                  Inl e \<Rightarrow> (Some e, w2)
                                | Inr (mediaUrls, str) \<Rightarrow>
                                    (None, dispatch env tweet mediaUrls str w2))))))"

text \<open>The stream's \<open>data\<close> events, one after the other: \<open>twitter.on('data', tweetHandler)\<close>.\<close>

definition on_data :: "env \<Rightarrow> payload list \<Rightarrow> world \<Rightarrow> world" where
  "on_data env ps w = foldl (\<lambda>w1 p. snd (tweetHandler env p False w1)) w ps"

section \<open>The stream client (twitterClient)\<close>

subsection \<open>Event handlers\<close>

definition on_connection_aborted :: "world \<Rightarrow> world" where
  "on_connection_aborted w =
     (emit (ConsoleWarn [LStr ''twitter: connection aborted'']) w)\<lparr>ids := []\<rparr>"

text \<open>The status code is a number, compared with \<open>===\<close>; \<open>process.exit(1)\<close> is an event.\<close>

definition on_connection_error_http :: "int \<Rightarrow> world \<Rightarrow> world" where
  "on_connection_error_http httpStatusCode w =
     (if httpStatusCode = 401 then
        emit (ProcessExit 1)
          (emit (ConsoleError
                   [LStr ''twitter: 401 Unauthorized. Please check your Twitter application credentials.''])
             w)
      else w)"

definition on_connection_rate_limit :: "int \<Rightarrow> world \<Rightarrow> world" where
  "on_connection_rate_limit httpStatusCode w =
     emit (ConsoleWarn [LStr ''twitter: connection rate limit'', LNum httpStatusCode]) w"

text \<open>\<open>myEvents.on('post', data => { tweetHandler(data, true); })\<close>\<close>

definition on_post :: "env \<Rightarrow> payload \<Rightarrow> world \<Rightarrow> js_error option \<times> world" where
  "on_post env data w = tweetHandler env data True w"

subsection \<open>Connecting\<close>

text \<open>
  The transport (\<open>twitter-stream-api\<close>) is a library: closing it and opening a stream
  are events, and \<open>twitter.connection\<close> is dropped by the one and set by the other.
  Closing emits \<open>connection aborted\<close> (``emitted when the connection is taken down /
  closed'') before \<open>twitter.close()\<close> returns, so the handler of that event runs inside
  the call.
\<close>

definition twitter_close :: "world \<Rightarrow> world" where
  "twitter_close w = on_connection_aborted ((emit TwitterClose w)\<lparr>connection := None\<rparr>)"

definition twitter_stream :: "string \<Rightarrow> string list \<Rightarrow> bool \<Rightarrow> world \<Rightarrow> world" where
  "twitter_stream endpoint follow stall_warnings w =
     (emit (TwitterStream endpoint follow stall_warnings) w)
       \<lparr>connection := Some \<lparr>request = Some ()\<rparr>\<rparr>"

definition close :: "world \<Rightarrow> world" where
  "close w =
     (case connection w of
        None \<Rightarrow> w
      | Some c \<Rightarrow> (case request c of None \<Rightarrow> w | Some r \<Rightarrow> twitter_close w))"

definition connect :: "env \<Rightarrow> world \<Rightarrow> world" where
  "connect env w =
     snd (promise_catch
            (promise_then
               (feeds_find env, emit FeedsFind (close (w\<lparr>reload := False\<rparr>)))
               (\<lambda>results w1.
                  (let feed_ids = map twitter_id results;
                       w2 = (emit (ConsoleLog
                                     [LStr (''Streaming '' @ show_nat (length feed_ids)
                                              @ '' twitter feed(s)'')]) w1)
                              \<lparr>ids := feed_ids\<rparr>
                   in if length feed_ids = 0 then (Resolved (), w2)
                      else (Resolved (),
                            twitter_stream ''statuses/filter'' feed_ids True
                              (emit (ConsoleLog
                                       [LStr ''Attempting to connect to the Twitter stream API...''])
                                 w2)))))
            (\<lambda>err w1.
               (Resolved (), emit (ConsoleError [LStr ''error reading from mongodb'', LErr err]) w1)))"

text \<open>The unknown-error handler and the five-minute reload check both call \<open>connect\<close>.\<close>

definition on_connection_error_unknown :: "env \<Rightarrow> js_error \<Rightarrow> world \<Rightarrow> world" where
  "on_connection_error_unknown env error w =
     connect env (emit (ConsoleWarn [LStr ''twitter: connection error unknown'', LErr error]) w)"

definition reload_check :: "env \<Rightarrow> world \<Rightarrow> world" where
  "reload_check env w =
     (if \<not> reload w then w
      else connect env (emit (ConsoleLog [LStr ''Scheduled restart of Twitter Client'']) w))"

subsection \<open>The retention sweep\<close>

text \<open>
  The file system as the sweep sees it: the listing of a folder, the \<open>stat\<close> of a path
  (\<open>ctime\<close> in milliseconds, as \<open>new Date(stat.ctime).getTime()\<close> gives it), the answer
  to an \<open>unlink\<close>, and the clock read in the \<open>stat\<close> callback of a file.
\<close>

record stats =
  ctime :: int

record file_system =
  readdir :: "string \<Rightarrow> js_error + string list"
  stat :: "string \<Rightarrow> js_error + stats"
  unlink :: "string \<Rightarrow> js_error option"
  clock :: "string \<Rightarrow> int"

text \<open>\<open>path.join\<close> of a folder written \<open>./name\<close> and the name of a directory entry.\<close>

definition path_join :: "string \<Rightarrow> string \<Rightarrow> string" where
  "path_join folder file =
     (if take 2 folder = ''./'' then drop 2 folder else folder) @ ''/'' @ file"

text \<open>
  The \<open>stat\<close> callback of one file. \<open>fs.unlink(path, console.error)\<close> hands the outcome
  to \<open>console.error\<close>, \<open>null\<close> when the file was removed.
\<close>

definition stat_callback :: "file_system \<Rightarrow> string \<Rightarrow> string \<Rightarrow> world \<Rightarrow> world" where
  "stat_callback fs folder file w =
     (case stat fs (path_join folder file) of
        Inl statErr \<Rightarrow> emit (ConsoleError [LErr statErr]) w
      | Inr st \<Rightarrow>
          (let now = clock fs file;
               endTime = ctime st + 2419200000
           in if now > endTime then
                emit (ConsoleError
                        [case unlink fs (path_join folder file) of
                           None \<Rightarrow> LNull
                         | Some e \<Rightarrow> LErr e])
                  (emit (Unlink (path_join folder file)) w)
              else w))"

text \<open>The callbacks of the files are taken in the order of the listing.\<close>

definition removeOldFiles :: "file_system \<Rightarrow> world \<Rightarrow> world" where
  "removeOldFiles fs w =
     (let folder = ''./tweets''
      in case readdir fs folder of
           Inl readdirErr \<Rightarrow> emit (ConsoleError [LErr readdirErr]) w
         | Inr files \<Rightarrow> foldl (\<lambda>w1 file. stat_callback fs folder file w1) w files)"

section \<open>Auxiliary definitions and example inputs\<close>

text \<open>Delivery events, for counting them.\<close>

definition is_DiscordSend :: "event \<Rightarrow> bool" where
  "is_DiscordSend e = (case e of DiscordSend t s \<Rightarrow> True | _ \<Rightarrow> False)"

text \<open>The events of one file's \<open>stat\<close> callback: what it adds to a world without effects.\<close>

definition stat_callback_events :: "file_system \<Rightarrow> string \<Rightarrow> string \<Rightarrow> event list" where
  "stat_callback_events fs folder file =
     new_effects \<lparr>ids = [], reload = False, recentTweets = [], connection = None, effects = []\<rparr>
       (stat_callback fs folder file
          \<lparr>ids = [], reload = False, recentTweets = [], connection = None, effects = []\<rparr>)"

text \<open>
  A concrete run: the batch operation rejects, the archive write succeeds, and the post
  is a two-photo post whose short URL stands twice in its text. In \<open>example_world\<close>
  the author is tracked and the post's id is already in the window; in
  \<open>untracked_world\<close> the author is not tracked.
\<close>

definition example_env :: env where
  "example_env =
     \<lparr>decode = (\<lambda>s. s), writeFileSync = (\<lambda>p. None),
      promiseSome = (\<lambda>ps. Rejected (Error ''batch'')), send_throws = (\<lambda>t s. None),
      findOne = (\<lambda>i. Resolved None), fetch = (\<lambda>u. Resolved ()),
      DISCORD_BOT_TOKEN = ''token'', feeds_find = Resolved [\<lparr>twitter_id = ''12''\<rparr>]\<rparr>"

definition example_photo :: "string \<Rightarrow> media_entity" where
  "example_photo picture =
     \<lparr>media_type = ''photo'', media_url_https = picture, url = ''https://t.co/a'',
      video_info = None\<rparr>"

definition example_entities :: entities where
  "example_entities =
     \<lparr>media = [example_photo ''https://pbs/1.jpg'', example_photo ''https://pbs/2.jpg'']\<rparr>"

definition example_tweet :: tweet where
  "example_tweet =
     Tweet ''1001'' \<lparr>user_id_str = ''12'', screen_name = ''jack''\<rparr> None None False
       ''pic https://t.co/a and https://t.co/a '' None (Some example_entities)"

definition example_world :: world where
  "example_world =
     \<lparr>ids = [''12''], reload = False, recentTweets = [''1001''], connection = None, effects = []\<rparr>"

definition untracked_world :: world where
  "untracked_world =
     \<lparr>ids = [''99''], reload = False, recentTweets = [], connection = None, effects = []\<rparr>"

text \<open>
  The same collaborators with an archive folder that cannot be written, and a post marked
  truncated that carries no \<open>extended_tweet\<close>.
\<close>

definition failing_write_env :: env where
  "failing_write_env = example_env\<lparr>writeFileSync := (\<lambda>p. Some (Error ''ENOENT''))\<rparr>"

definition truncated_tweet :: tweet where
  "truncated_tweet =
     Tweet ''1002'' \<lparr>user_id_str = ''12'', screen_name = ''jack''\<rparr> None None True
       ''hello'' None None"

text \<open>A world with an open connection, and collaborators with two tracked feeds.\<close>

definition connected_world :: world where
  "connected_world =
     \<lparr>ids = [''12''], reload = True, recentTweets = [], connection = Some \<lparr>request = Some ()\<rparr>,
      effects = []\<rparr>"

definition two_feeds_env :: env where
  "two_feeds_env =
     example_env\<lparr>feeds_find := Resolved [\<lparr>twitter_id = ''12''\<rparr>, \<lparr>twitter_id = ''34''\<rparr>]\<rparr>"

text \<open>Posts of the tracked author with pairwise different ids (\<open>7\<close>, \<open>77\<close>, \<open>777\<close>, ...).\<close>

definition numbered_tweet :: "nat \<Rightarrow> tweet" where
  "numbered_tweet n =
     Tweet (replicate (Suc n) (CHR ''7'')) \<lparr>user_id_str = ''12'', screen_name = ''jack''\<rparr>
       None None False ''hello'' None None"

text \<open>
  An archive folder with a file past the retention age, a file within it and a file whose
  \<open>stat\<close> fails; the clock stands one millisecond past 28 days.
\<close>

definition example_fs :: file_system where
  "example_fs =
     \<lparr>readdir = (\<lambda>d. Inr [''old.json'', ''bad.json'', ''new.json'']),
      stat = (\<lambda>p. if p = ''tweets/old.json'' then Inr \<lparr>ctime = 0\<rparr>
                   else if p = ''tweets/new.json'' then Inr \<lparr>ctime = 1000\<rparr>
                   else Inl (Error ''EACCES'')),
      unlink = (\<lambda>p. None),
      clock = (\<lambda>f. 2419200001)\<rparr>"

section \<open>Properties\<close>

subsection \<open>Effects and state of the basic steps\<close>

lemma emit_simps [simp]:
  "ids (emit e w) = ids w"
  "reload (emit e w) = reload w"
  "recentTweets (emit e w) = recentTweets w"
  "connection (emit e w) = connection w"
  "effects (emit e w) = effects w @ [e]"
  by (simp_all add: emit_def)

lemma new_effects_append [simp]: "effects w' = effects w @ es \<Longrightarrow> new_effects w w' = es"
  by (simp add: new_effects_def)

lemma new_effects_same [simp]: "new_effects w w = []"
  by (simp add: new_effects_def)

subsection \<open>The connection handlers\<close>

text \<open>
  C2, as the code has it: the handler of \<open>connection aborted\<close> empties \<open>utils.ids\<close>
  and leaves \<open>recentTweets\<close>, which belongs to the handler module, as it was.
\<close>

theorem connection_aborted_clears_ids_only:
  "ids (on_connection_aborted w) = []
   \<and> recentTweets (on_connection_aborted w) = recentTweets w
   \<and> new_effects w (on_connection_aborted w) = [ConsoleWarn [LStr ''twitter: connection aborted'']]"
  by (simp add: on_connection_aborted_def)

text \<open>
  C2 as stated (both collections are empty afterwards) fails: a window that holds an
  id before the handler runs holds it afterwards.
\<close>

theorem connection_aborted_counterexample:
  "ids (on_connection_aborted
          \<lparr>ids = [''12''], reload = False, recentTweets = [''1001''], connection = None,
           effects = []\<rparr>) = []
   \<and> recentTweets (on_connection_aborted
          \<lparr>ids = [''12''], reload = False, recentTweets = [''1001''], connection = None,
           effects = []\<rparr>) \<noteq> []"
  by (simp add: on_connection_aborted_def)

text \<open>
  C5: the handler of \<open>connection error http\<close> calls \<open>process.exit\<close> if and only if the
  status code is 401; for every other code it does nothing at all.
\<close>

theorem http_error_exits_iff_401:
  "on_connection_error_http c w =
     (if c = 401 then
        w\<lparr>effects := effects w @
             [ConsoleError
                [LStr ''twitter: 401 Unauthorized. Please check your Twitter application credentials.''],
              ProcessExit 1]\<rparr>
      else w)
   \<and> ((\<exists>code. ProcessExit code \<in> set (new_effects w (on_connection_error_http c w))) = (c = 401))"
  by (simp add: on_connection_error_http_def new_effects_def emit_def)

subsection \<open>Context resolution\<close>

text \<open>
  C9: for a post marked truncated, the text and the media entities are those of the
  context's \<open>extended_tweet\<close>. For a retweet the context is the retweeted post, and the
  outer post's own \<open>text\<close>, \<open>extended_tweet\<close> and \<open>extended_entities\<close> play no part;
  only the flag \<open>truncated\<close> is the outer post's (with the outer flag unset, the
  retweeted post's plain fields are read whatever its own flag says).
\<close>

theorem truncated_reads_context_fields:
  "text_and_entities (Tweet i u r (Some rt) True t et ee) =
     (case extended_tweet rt of
        None \<Rightarrow> Inl TypeError
      | Some x \<Rightarrow> Inr (full_text x, extended_tweet_extended_entities x))
   \<and> text_and_entities (Tweet i u r None True t et ee) =
     (case et of
        None \<Rightarrow> Inl TypeError
      | Some x \<Rightarrow> Inr (full_text x, extended_tweet_extended_entities x))
   \<and> text_and_entities (Tweet i u r (Some rt) False t et ee) =
     Inr (tweet_text rt, extended_entities rt)"
  by (simp add: text_and_entities_def tweet_context_def)

subsection \<open>Deletions\<close>

text \<open>
  C10: \<open>deleteTweet\<close> returns, with no persistence lookup and no delete request, when
  the payload is absent, has no \<open>delete\<close>, or has a \<open>delete\<close> without \<open>status\<close>.
\<close>

theorem deleteTweet_guard_returns:
  "deleteTweet env None w = (None, w)
   \<and> deleteTweet env (Some (Post t)) w = (None, w)
   \<and> deleteTweet env (Some (Deletion \<lparr>status = None\<rparr>)) w = (None, w)"
  by (simp add: deleteTweet_def delete_def)

text \<open>
  The handler itself does not reach \<open>deleteTweet\<close> on a deletion notice without
  \<open>status\<close>: its log line reads \<open>tweet.delete.status.id_str\<close> first and throws. No
  lookup and no delete request is made there either.
\<close>

lemma tweetHandler_deletion_without_status:
  "tweetHandler env (Deletion \<lparr>status = None\<rparr>) manual w = (Some TypeError, w)"
  by (simp add: tweetHandler_def)

subsection \<open>Delivery\<close>

text \<open>
  The chain \<open>promiseSome(...).then(send).catch(log; send)\<close>: the first continuation
  runs when the batch resolves, the second when the batch rejects, and also when the
  first one throws.
\<close>

lemma dispatch_effects:
  "dispatch env tweet mediaUrls str w =
     w\<lparr>effects := effects w @
         (case promiseSome env (map (\<lambda>m. processMediaEntry m (id_str tweet)) mediaUrls) of
            Resolved u \<Rightarrow>
              (case send_throws env tweet str of
                 None \<Rightarrow> [DiscordSend tweet str]
               | Some e \<Rightarrow> [DiscordSend tweet str, ConsoleError [LErr e], DiscordSend tweet str])
          | Rejected err \<Rightarrow> [ConsoleError [LErr err], DiscordSend tweet str])\<rparr>"
  by (simp add: dispatch_def promise_then_def promise_catch_def discordClient_send_def emit_def
      split: promise.splits option.splits)

text \<open>
  When the batch resolves and the call in the first continuation throws, the second
  continuation logs what was thrown and calls \<open>discordClient.send\<close> again.
\<close>

lemma dispatch_send_throws:
  assumes "promiseSome env (map (\<lambda>m. processMediaEntry m (id_str tweet)) mediaUrls) = Resolved u"
      and "send_throws env tweet str = Some e"
  shows "new_effects w (dispatch env tweet mediaUrls str w) =
           [DiscordSend tweet str, ConsoleError [LErr e], DiscordSend tweet str]"
  using assms by (simp add: dispatch_effects)

text \<open>A post that passes every filter, with the archive written and the message built.\<close>

lemma tweetHandler_passing:
  assumes "user_id_str (user tweet) \<in> set (ids w)"
      and "dedup_gate manual (id_str tweet) (recentTweets w) = Some recent"
      and "writeFileSync env (archive_path tweet manual) = None"
      and "\<not> non_self_reply tweet"
      and "build_message env tweet = Inr (mediaUrls, str)"
  shows "tweetHandler env (Post tweet) manual w =
           (None, w\<lparr>recentTweets := recent,
                    effects := effects w @ WriteFileSync (archive_path tweet manual) tweet #
                      (case promiseSome env (map (\<lambda>m. processMediaEntry m (id_str tweet)) mediaUrls) of
                         Resolved u \<Rightarrow>
                           (case send_throws env tweet str of
                              None \<Rightarrow> [DiscordSend tweet str]
                            | Some e \<Rightarrow>
                                [DiscordSend tweet str, ConsoleError [LErr e], DiscordSend tweet str])
                       | Rejected err \<Rightarrow> [ConsoleError [LErr err], DiscordSend tweet str])\<rparr>)"
  using assms
  by (simp add: tweetHandler_def dispatch_effects emit_def Let_def)

text \<open>A post that passes every filter and whose archive write or message building throws.\<close>

lemma tweetHandler_throwing:
  assumes "user_id_str (user tweet) \<in> set (ids w)"
      and "dedup_gate manual (id_str tweet) (recentTweets w) = Some recent"
      and "\<not> non_self_reply tweet"
  shows "writeFileSync env (archive_path tweet manual) = Some e \<Longrightarrow>
           tweetHandler env (Post tweet) manual w = (Some e, w\<lparr>recentTweets := recent\<rparr>)"
    and "writeFileSync env (archive_path tweet manual) = None \<Longrightarrow>
         build_message env tweet = Inl e \<Longrightarrow>
           tweetHandler env (Post tweet) manual w =
             (Some e, w\<lparr>recentTweets := recent,
                         effects := effects w @ [WriteFileSync (archive_path tweet manual) tweet]\<rparr>)"
  using assms by (simp_all add: tweetHandler_def emit_def Let_def)

text \<open>
  C3, as the code has it: for a post that passes the filters (tracked author, not a
  duplicate unless manual, not a reply to another user), when the archive write and the
  building of the message do not throw and the call \<open>discordClient.send\<close> returns, the
  handler returns and \<open>discordClient.send\<close> is called exactly once, with the post and
  the display string, whether the media batch resolves or rejects: on resolution the
  effects after the archive write are the delivery alone (the success continuation), on
  rejection they are the logged error and the delivery (the failure continuation). When
  the archive write or the building of the message throws, the handler throws that error
  and \<open>discordClient.send\<close> is not called.
\<close>

theorem delivery_once_when_message_built:
  assumes "user_id_str (user tweet) \<in> set (ids w)"
      and "manual \<or> id_str tweet \<notin> set (recentTweets w)"
      and "\<not> non_self_reply tweet"
  shows "(writeFileSync env (archive_path tweet manual) = None
          \<and> build_message env tweet = Inr (mediaUrls, str)
          \<and> send_throws env tweet str = None \<longrightarrow>
            fst (tweetHandler env (Post tweet) manual w) = None
            \<and> filter is_DiscordSend (new_effects w (snd (tweetHandler env (Post tweet) manual w)))
                = [DiscordSend tweet str]
            \<and> new_effects w (snd (tweetHandler env (Post tweet) manual w))
                = WriteFileSync (archive_path tweet manual) tweet #
                    (case promiseSome env (map (\<lambda>m. processMediaEntry m (id_str tweet)) mediaUrls) of
                       Resolved u \<Rightarrow> [DiscordSend tweet str]
                     | Rejected err \<Rightarrow> [ConsoleError [LErr err], DiscordSend tweet str]))
         \<and> (writeFileSync env (archive_path tweet manual) = Some e \<longrightarrow>
            fst (tweetHandler env (Post tweet) manual w) = Some e
            \<and> filter is_DiscordSend (new_effects w (snd (tweetHandler env (Post tweet) manual w)))
                = [])
         \<and> (writeFileSync env (archive_path tweet manual) = None
            \<and> build_message env tweet = Inl e \<longrightarrow>
            fst (tweetHandler env (Post tweet) manual w) = Some e
            \<and> filter is_DiscordSend (new_effects w (snd (tweetHandler env (Post tweet) manual w)))
                = [])"
proof -
  from assms(2) obtain recent where
    d: "dedup_gate manual (id_str tweet) (recentTweets w) = Some recent"
    by (cases manual) (simp_all add: dedup_gate_def Let_def)
  have h1: "fst (tweetHandler env (Post tweet) manual w) = None
      \<and> filter is_DiscordSend (new_effects w (snd (tweetHandler env (Post tweet) manual w)))
          = [DiscordSend tweet str]
      \<and> new_effects w (snd (tweetHandler env (Post tweet) manual w))
          = WriteFileSync (archive_path tweet manual) tweet #
              (case promiseSome env (map (\<lambda>m. processMediaEntry m (id_str tweet)) mediaUrls) of
                 Resolved u \<Rightarrow> [DiscordSend tweet str]
               | Rejected err \<Rightarrow> [ConsoleError [LErr err], DiscordSend tweet str])"
    if "writeFileSync env (archive_path tweet manual) = None"
      and "build_message env tweet = Inr (mediaUrls, str)"
      and "send_throws env tweet str = None"
    using tweetHandler_passing [OF assms(1) d that(1) assms(3) that(2)] that(3)
    by (simp add: new_effects_def is_DiscordSend_def split: promise.splits)
  have h2: "fst (tweetHandler env (Post tweet) manual w) = Some e
      \<and> filter is_DiscordSend (new_effects w (snd (tweetHandler env (Post tweet) manual w))) = []"
    if "writeFileSync env (archive_path tweet manual) = Some e"
    using tweetHandler_throwing(1) [OF assms(1) d assms(3) that]
    by (simp add: new_effects_def)
  have h3: "fst (tweetHandler env (Post tweet) manual w) = Some e
      \<and> filter is_DiscordSend (new_effects w (snd (tweetHandler env (Post tweet) manual w))) = []"
    if "writeFileSync env (archive_path tweet manual) = None"
      and "build_message env tweet = Inl e"
    using tweetHandler_throwing(2) [OF assms(1) d assms(3) that]
    by (simp add: new_effects_def is_DiscordSend_def)
  from h1 h2 h3 show ?thesis by blast
qed

text \<open>
  C3 as stated (every post that passes the filters is delivered exactly once) fails:
  a post of a tracked author, not in the window and not a reply, is not delivered when
  the archive write throws, nor when it is marked truncated and has no \<open>extended_tweet\<close>.
\<close>

theorem delivery_blocked_counterexample:
  "user_id_str (user (numbered_tweet 0)) \<in> set (ids example_world)
   \<and> id_str (numbered_tweet 0) \<notin> set (recentTweets example_world)
   \<and> \<not> non_self_reply (numbered_tweet 0)
   \<and> tweetHandler failing_write_env (Post (numbered_tweet 0)) False example_world
       = (Some (Error ''ENOENT''), example_world\<lparr>recentTweets := [''1001'', ''7'']\<rparr>)
   \<and> filter is_DiscordSend
         (new_effects example_world
            (snd (tweetHandler failing_write_env (Post (numbered_tweet 0)) False example_world)))
       = []
   \<and> user_id_str (user truncated_tweet) \<in> set (ids example_world)
   \<and> id_str truncated_tweet \<notin> set (recentTweets example_world)
   \<and> \<not> non_self_reply truncated_tweet
   \<and> fst (tweetHandler example_env (Post truncated_tweet) False example_world) = Some TypeError
   \<and> filter is_DiscordSend
         (new_effects example_world
            (snd (tweetHandler example_env (Post truncated_tweet) False example_world)))
       = []"
  by (simp add: tweetHandler_def dedup_gate_def Let_def archive_path_def non_self_reply_def
      build_message_def text_and_entities_def tweet_context_def numbered_tweet_def
      truncated_tweet_def example_world_def example_env_def failing_write_env_def
      new_effects_def is_DiscordSend_def emit_def)

text \<open>The example post: both photos are extracted and the short URL is wrapped once.\<close>

lemma example_trim:
  "js_trim ''pic <https://t.co/a> and https://t.co/a '' = ''pic <https://t.co/a> and https://t.co/a''"
  by code_simp

lemma example_message:
  "build_message example_env example_tweet =
     Inr ([\<lparr>video = None, image = ''https://pbs/1.jpg''\<rparr>, \<lparr>video = None, image = ''https://pbs/2.jpg''\<rparr>],
          display_string example_tweet ''pic <https://t.co/a> and https://t.co/a'')"
  by (simp add: build_message_def example_env_def example_tweet_def example_entities_def
      example_photo_def text_and_entities_def tweet_context_def extract_media_def
      photo_step_def escape_url_def js_replace_def example_trim)

text \<open>
  C3 as amended, on the example post with a batch operation that rejects, on a post
  whose archive write throws, and on a truncated post without \<open>extended_tweet\<close>.
\<close>

theorem delivery_once_when_message_built_witness:
  "filter is_DiscordSend
     (new_effects example_world (snd (tweetHandler example_env (Post example_tweet) True example_world)))
     = [DiscordSend example_tweet
          (display_string example_tweet ''pic <https://t.co/a> and https://t.co/a'')]
   \<and> fst (tweetHandler failing_write_env (Post (numbered_tweet 0)) False example_world)
       = Some (Error ''ENOENT'')
   \<and> fst (tweetHandler example_env (Post truncated_tweet) False example_world) = Some TypeError"
proof -
  have a1: "user_id_str (user example_tweet) \<in> set (ids example_world)"
    by (simp add: example_tweet_def example_world_def)
  have a2: "True \<or> id_str example_tweet \<notin> set (recentTweets example_world)"
    by simp
  have a3: "\<not> non_self_reply example_tweet"
    by (simp add: non_self_reply_def example_tweet_def)
  have a4: "writeFileSync example_env (archive_path example_tweet True) = None
      \<and> build_message example_env example_tweet =
          Inr ([\<lparr>video = None, image = ''https://pbs/1.jpg''\<rparr>,
                \<lparr>video = None, image = ''https://pbs/2.jpg''\<rparr>],
               display_string example_tweet ''pic <https://t.co/a> and https://t.co/a'')
      \<and> send_throws example_env example_tweet
            (display_string example_tweet ''pic <https://t.co/a> and https://t.co/a'') = None"
    by (simp add: example_message) (simp add: example_env_def)
  have b1: "user_id_str (user (numbered_tweet 0)) \<in> set (ids example_world)"
    by (simp add: numbered_tweet_def example_world_def)
  have b2: "False \<or> id_str (numbered_tweet 0) \<notin> set (recentTweets example_world)"
    by (simp add: numbered_tweet_def example_world_def)
  have b3: "\<not> non_self_reply (numbered_tweet 0)"
    by (simp add: non_self_reply_def numbered_tweet_def)
  have b4: "writeFileSync failing_write_env (archive_path (numbered_tweet 0) False)
      = Some (Error ''ENOENT'')"
    by (simp add: failing_write_env_def)
  have c1: "user_id_str (user truncated_tweet) \<in> set (ids example_world)"
    by (simp add: truncated_tweet_def example_world_def)
  have c2: "False \<or> id_str truncated_tweet \<notin> set (recentTweets example_world)"
    by (simp add: truncated_tweet_def example_world_def)
  have c3: "\<not> non_self_reply truncated_tweet"
    by (simp add: non_self_reply_def truncated_tweet_def)
  have c4: "writeFileSync example_env (archive_path truncated_tweet False) = None
      \<and> build_message example_env truncated_tweet = Inl TypeError"
    by (simp add: example_env_def build_message_def text_and_entities_def tweet_context_def
        truncated_tweet_def)
  from delivery_once_when_message_built [OF a1 a2 a3] a4
  have a: "filter is_DiscordSend
     (new_effects example_world (snd (tweetHandler example_env (Post example_tweet) True example_world)))
     = [DiscordSend example_tweet
          (display_string example_tweet ''pic <https://t.co/a> and https://t.co/a'')]"
    by blast
  from delivery_once_when_message_built [OF b1 b2 b3] b4
  have b: "fst (tweetHandler failing_write_env (Post (numbered_tweet 0)) False example_world)
       = Some (Error ''ENOENT'')"
    by blast
  from delivery_once_when_message_built [OF c1 c2 c3] c4
  have c: "fst (tweetHandler example_env (Post truncated_tweet) False example_world) = Some TypeError"
    by blast
  from a b c show ?thesis by (intro conjI)
qed

subsection \<open>Manual posts\<close>

lemma tweetHandler_manual_window:
  "tweetHandler env (Post tweet) True (w\<lparr>recentTweets := r\<rparr>) =
     (fst (tweetHandler env (Post tweet) True w),
      (snd (tweetHandler env (Post tweet) True w))\<lparr>recentTweets := r\<rparr>)"
  by (simp add: tweetHandler_def dedup_gate_def Let_def emit_def dispatch_effects
      split: option.splits sum.splits prod.splits promise.splits)

lemma tweetHandler_manual_keeps_window:
  "recentTweets (snd (tweetHandler env (Post tweet) True w)) = recentTweets w"
  by (simp add: tweetHandler_def dedup_gate_def Let_def dispatch_effects
      split: option.splits sum.splits prod.splits promise.splits)

text \<open>
  C1, as the code has it: with \<open>manual = true\<close> only the dedup check is bypassed.
  The author filter still applies (an untracked author's post is dropped with no
  effect); the outcome does not depend on the window, which is left as it was; and a
  post of a tracked author whose archive is written, that is not a reply to another
  user and whose message is built is archived under the \<open>-man\<close> name and delivered,
  also when its id is already in the window (were the delivery call of the success
  continuation to throw, the failure continuation would log that and deliver again).
\<close>

theorem manual_bypasses_dedup_only:
  "(user_id_str (user tweet) \<notin> set (ids w) \<longrightarrow> tweetHandler env (Post tweet) True w = (None, w))
   \<and> tweetHandler env (Post tweet) True (w\<lparr>recentTweets := r\<rparr>) =
       (fst (tweetHandler env (Post tweet) True w),
        (snd (tweetHandler env (Post tweet) True w))\<lparr>recentTweets := r\<rparr>)
   \<and> recentTweets (snd (tweetHandler env (Post tweet) True w)) = recentTweets w
   \<and> (user_id_str (user tweet) \<in> set (ids w)
        \<and> writeFileSync env (archive_path tweet True) = None
        \<and> \<not> non_self_reply tweet
        \<and> build_message env tweet = Inr (mediaUrls, str) \<longrightarrow>
      fst (tweetHandler env (Post tweet) True w) = None
      \<and> new_effects w (snd (tweetHandler env (Post tweet) True w)) =
          WriteFileSync (archive_path tweet True) tweet #
            (case promiseSome env (map (\<lambda>m. processMediaEntry m (id_str tweet)) mediaUrls) of
               Resolved u \<Rightarrow>
                 (case send_throws env tweet str of
                    None \<Rightarrow> [DiscordSend tweet str]
                  | Some e \<Rightarrow>
                      [DiscordSend tweet str, ConsoleError [LErr e], DiscordSend tweet str])
             | Rejected err \<Rightarrow> [ConsoleError [LErr err], DiscordSend tweet str]))"
proof (intro conjI impI)
  assume "user_id_str (user tweet) \<notin> set (ids w)"
  then show "tweetHandler env (Post tweet) True w = (None, w)"
    by (simp add: tweetHandler_def)
next
  show "tweetHandler env (Post tweet) True (w\<lparr>recentTweets := r\<rparr>) =
       (fst (tweetHandler env (Post tweet) True w),
        (snd (tweetHandler env (Post tweet) True w))\<lparr>recentTweets := r\<rparr>)"
    by (rule tweetHandler_manual_window)
next
  show "recentTweets (snd (tweetHandler env (Post tweet) True w)) = recentTweets w"
    by (rule tweetHandler_manual_keeps_window)
next
  assume a: "user_id_str (user tweet) \<in> set (ids w)
        \<and> writeFileSync env (archive_path tweet True) = None
        \<and> \<not> non_self_reply tweet
        \<and> build_message env tweet = Inr (mediaUrls, str)"
  have d: "dedup_gate True (id_str tweet) (recentTweets w) = Some (recentTweets w)"
    by (simp add: dedup_gate_def)
  from a have h: "tweetHandler env (Post tweet) True w =
           (None, w\<lparr>recentTweets := recentTweets w,
                    effects := effects w @ WriteFileSync (archive_path tweet True) tweet #
                      (case promiseSome env (map (\<lambda>m. processMediaEntry m (id_str tweet)) mediaUrls) of
                         Resolved u \<Rightarrow>
                 (case send_throws env tweet str of
                    None \<Rightarrow> [DiscordSend tweet str]
                  | Some e \<Rightarrow>
                      [DiscordSend tweet str, ConsoleError [LErr e], DiscordSend tweet str])
                       | Rejected err \<Rightarrow> [ConsoleError [LErr err], DiscordSend tweet str])\<rparr>)"
    using tweetHandler_passing [OF _ d, of env mediaUrls str] by blast
  show "fst (tweetHandler env (Post tweet) True w) = None" by (simp add: h)
  show "new_effects w (snd (tweetHandler env (Post tweet) True w)) =
          WriteFileSync (archive_path tweet True) tweet #
            (case promiseSome env (map (\<lambda>m. processMediaEntry m (id_str tweet)) mediaUrls) of
               Resolved u \<Rightarrow>
                 (case send_throws env tweet str of
                    None \<Rightarrow> [DiscordSend tweet str]
                  | Some e \<Rightarrow>
                      [DiscordSend tweet str, ConsoleError [LErr e], DiscordSend tweet str])
             | Rejected err \<Rightarrow> [ConsoleError [LErr err], DiscordSend tweet str])"
    by (simp add: h new_effects_def)
qed

text \<open>
  Archival needs no more than a tracked author and a write that succeeds: the archive
  under the \<open>-man\<close> name is the first effect of such a manual post, whatever the window
  holds and whatever happens to the post afterwards.
\<close>

lemma manual_post_archived:
  assumes "user_id_str (user tweet) \<in> set (ids w)"
      and "writeFileSync env (archive_path tweet True) = None"
  shows "take 1 (new_effects w (snd (tweetHandler env (Post tweet) True w))) =
           [WriteFileSync (archive_path tweet True) tweet]"
  using assms
  by (simp add: tweetHandler_def dedup_gate_def Let_def dispatch_effects new_effects_def
      split: sum.splits prod.splits)

text \<open>
  C1 as stated (the author filter is bypassed too) fails: a manual post of an author
  who is not in \<open>utils.ids\<close> is neither archived nor delivered.
\<close>

theorem manual_author_filter_counterexample:
  "user_id_str (user example_tweet) \<notin> set (ids untracked_world)
   \<and> tweetHandler example_env (Post example_tweet) True untracked_world = (None, untracked_world)
   \<and> new_effects untracked_world (snd (tweetHandler example_env (Post example_tweet) True untracked_world)) = []"
  by (simp add: tweetHandler_def example_tweet_def untracked_world_def new_effects_def)

text \<open>
  C1 as amended, on the example post: dropped where its author is not tracked; archived
  and delivered where the author is tracked, although its id is in the window.
\<close>

theorem manual_bypasses_dedup_only_witness:
  "tweetHandler example_env (Post example_tweet) True untracked_world = (None, untracked_world)
   \<and> id_str example_tweet \<in> set (recentTweets example_world)
   \<and> new_effects example_world (snd (tweetHandler example_env (Post example_tweet) True example_world)) =
       [WriteFileSync ''./tweets/jack-1001-man.json'' example_tweet,
        ConsoleError [LErr (Error ''batch'')],
        DiscordSend example_tweet (display_string example_tweet ''pic <https://t.co/a> and https://t.co/a'')]"
proof -
  have 1: "user_id_str (user example_tweet) \<notin> set (ids untracked_world)"
    by (simp add: example_tweet_def untracked_world_def)
  have 2: "user_id_str (user example_tweet) \<in> set (ids example_world)
        \<and> writeFileSync example_env (archive_path example_tweet True) = None
        \<and> \<not> non_self_reply example_tweet
        \<and> build_message example_env example_tweet =
            Inr ([\<lparr>video = None, image = ''https://pbs/1.jpg''\<rparr>, \<lparr>video = None, image = ''https://pbs/2.jpg''\<rparr>],
          display_string example_tweet ''pic <https://t.co/a> and https://t.co/a'')"
    by (simp add: example_message) (simp add: example_tweet_def example_world_def example_env_def non_self_reply_def)
  have 3: "id_str example_tweet \<in> set (recentTweets example_world)"
    by (simp add: example_tweet_def example_world_def)
  have 4: "archive_path example_tweet True = ''./tweets/jack-1001-man.json''"
    by (simp add: archive_path_def example_tweet_def)
  have 5: "promiseSome example_env ps = Rejected (Error ''batch'')" for ps
    by (simp add: example_env_def)
  from manual_bypasses_dedup_only [of example_tweet untracked_world example_env] 1
  have a: "tweetHandler example_env (Post example_tweet) True untracked_world = (None, untracked_world)"
    by blast
  from manual_bypasses_dedup_only [of example_tweet example_world example_env] 2
  have b: "new_effects example_world (snd (tweetHandler example_env (Post example_tweet) True example_world)) =
          WriteFileSync (archive_path example_tweet True) example_tweet #
            (case promiseSome example_env (map (\<lambda>m. processMediaEntry m (id_str example_tweet)) 
                [\<lparr>video = None, image = ''https://pbs/1.jpg''\<rparr>, \<lparr>video = None, image = ''https://pbs/2.jpg''\<rparr>]) of
               Resolved u \<Rightarrow>
                 (case send_throws example_env example_tweet
                         (display_string example_tweet ''pic <https://t.co/a> and https://t.co/a'') of
                    None \<Rightarrow> [DiscordSend example_tweet (display_string example_tweet ''pic <https://t.co/a> and https://t.co/a'')]
                  | Some e \<Rightarrow>
                      [DiscordSend example_tweet (display_string example_tweet ''pic <https://t.co/a> and https://t.co/a''), ConsoleError [LErr e],
                       DiscordSend example_tweet (display_string example_tweet ''pic <https://t.co/a> and https://t.co/a'')])
             | Rejected err \<Rightarrow> [ConsoleError [LErr err], DiscordSend example_tweet (display_string example_tweet ''pic <https://t.co/a> and https://t.co/a'')])"
    by blast
  show ?thesis using a b 3 by (simp add: 4 5)
qed

subsection \<open>The dedup window\<close>

text \<open>On a window of at most 20 ids, push-then-shift keeps the last 20 of the extended list.\<close>

lemma dedup_gate_window:
  assumes "length r \<le> 20" and "i \<notin> set r"
  shows "dedup_gate False i r = Some (drop (length (r @ [i]) - 20) (r @ [i]))"
proof (cases "length r = 20")
  case True
  then have "r \<noteq> []" by auto
  with True have "drop (length (r @ [i]) - 20) (r @ [i]) = tl (r @ [i])"
    by (simp add: drop_Suc)
  with True assms show ?thesis by (simp add: dedup_gate_def)
next
  case False
  with assms have "length (r @ [i]) \<le> 20" by simp
  with assms show ?thesis by (simp add: dedup_gate_def)
qed

lemma tweetHandler_post_state:
  "recentTweets (snd (tweetHandler env (Post t) False w)) =
     (if user_id_str (user t) \<notin> set (ids w) then recentTweets w
      else case dedup_gate False (id_str t) (recentTweets w) of
             None \<Rightarrow> recentTweets w
           | Some r \<Rightarrow> r)
   \<and> ids (snd (tweetHandler env (Post t) False w)) = ids w"
  by (simp add: tweetHandler_def Let_def dispatch_effects
      split: option.splits sum.splits prod.splits promise.splits)

lemma on_data_snoc:
  "on_data env (ps @ [p]) w = snd (tweetHandler env p False (on_data env ps w))"
  by (simp add: on_data_def)

lemma drop_window_append:
  "drop (length (drop (length a - 20) a @ [i]) - 20) (drop (length a - 20) a @ [i])
     = drop (length (a @ [i]) - 20) (a @ [i])"
proof (cases "length a \<le> 20")
  case True
  then show ?thesis by simp
next
  case False
  then have "Suc (length a - 20) = length a - 19" by arith
  with False show ?thesis by simp
qed

lemma on_data_window:
  assumes "\<forall>t \<in> set ts. user_id_str (user t) \<in> set (ids w)"
      and "distinct (map id_str ts)"
      and "set (map id_str ts) \<inter> set (recentTweets w) = {}"
      and "length (recentTweets w) \<le> 20"
  shows "recentTweets (on_data env (map Post ts) w) =
           drop (length (recentTweets w @ map id_str ts) - 20) (recentTweets w @ map id_str ts)
         \<and> ids (on_data env (map Post ts) w) = ids w"
  using assms
proof (induction ts rule: rev_induct)
  case Nil
  then show ?case by (simp add: on_data_def)
next
  case (snoc t ts)
  let ?w = "on_data env (map Post ts) w"
  let ?a = "recentTweets w @ map id_str ts"
  from snoc have ih: "recentTweets ?w = drop (length ?a - 20) ?a" "ids ?w = ids w"
    by auto
  from snoc.prems have fresh: "id_str t \<notin> set ?a" by auto
  then have "id_str t \<notin> set (recentTweets ?w)"
    unfolding ih by (meson in_set_dropD)
  moreover have "length (recentTweets ?w) \<le> 20" unfolding ih by simp
  ultimately have "dedup_gate False (id_str t) (recentTweets ?w) =
      Some (drop (length (recentTweets ?w @ [id_str t]) - 20) (recentTweets ?w @ [id_str t]))"
    by (simp add: dedup_gate_window)
  moreover from snoc.prems ih have "user_id_str (user t) \<in> set (ids ?w)" by simp
  ultimately have "recentTweets (snd (tweetHandler env (Post t) False ?w)) =
      drop (length (recentTweets ?w @ [id_str t]) - 20) (recentTweets ?w @ [id_str t])"
    and "ids (snd (tweetHandler env (Post t) False ?w)) = ids w"
    using tweetHandler_post_state [of env t ?w] ih by simp_all
  then show ?case
    unfolding ih using drop_window_append [of ?a "id_str t"]
    by (simp add: on_data_snoc)
qed

text \<open>
  The bound of 20 is an invariant of the handler: the window the module starts with is
  empty, and no call, whatever the payload and the flag, leaves a longer window than 20.
\<close>

lemma fetch_settled_recentTweets [simp]:
  "recentTweets (fetch_settled env msg w) = recentTweets w"
  by (simp add: fetch_settled_def promise_then_def promise_catch_def split: promise.splits)

lemma delete_messages_recentTweets [simp]:
  "recentTweets (delete_messages env msgs w) = recentTweets w"
proof -
  have a: "recentTweets (foldl (\<lambda>w1 msg. emit (f msg) w1) v ms) = recentTweets v" for f v ms
    by (induction ms arbitrary: v) simp_all
  have b: "recentTweets (foldl (\<lambda>w1 msg. fetch_settled env msg w1) v ms) = recentTweets v" for v ms
    by (induction ms arbitrary: v) simp_all
  show ?thesis by (simp add: delete_messages_def a b)
qed

lemma deleteTweet_recentTweets [simp]:
  "recentTweets (snd (deleteTweet env p w)) = recentTweets w"
  by (simp add: deleteTweet_def promise_then_def promise_catch_def
      split: option.splits promise.splits)

lemma dedup_gate_bound:
  "length r \<le> 20 \<Longrightarrow> dedup_gate manual i r = Some r' \<Longrightarrow> length r' \<le> 20"
  by (auto simp: dedup_gate_def Let_def split: if_splits)

lemma tweetHandler_window_bound:
  assumes "length (recentTweets w) \<le> 20"
  shows "length (recentTweets (snd (tweetHandler env p manual w))) \<le> 20"
proof (cases p)
  case (Deletion d)
  with assms show ?thesis by (simp add: tweetHandler_def split: option.splits)
next
  case (Post t)
  with assms show ?thesis
    by (auto simp: tweetHandler_def Let_def dispatch_effects dest: dedup_gate_bound
        split: option.splits sum.splits promise.splits)
qed

text \<open>
  C4: after the handler has processed more than 20 posts of tracked authors, arriving
  on the stream (not manual), with pairwise different ids none of which is in the
  window (of at most 20 entries, as every window the handler leaves is),
  \<open>recentTweets\<close> holds exactly the ids of the last 20 of them in the order of arrival;
  and after each post of the sequence the window has at most 20 entries.
\<close>

theorem dedup_window_keeps_last_20:
  assumes "\<forall>t \<in> set ts. user_id_str (user t) \<in> set (ids w)"
      and "distinct (map id_str ts)"
      and "set (map id_str ts) \<inter> set (recentTweets w) = {}"
      and "length (recentTweets w) \<le> 20"
      and "20 < length ts"
  shows "recentTweets (on_data env (map Post ts) w) = drop (length ts - 20) (map id_str ts)
         \<and> length (recentTweets (on_data env (map Post ts) w)) = 20
         \<and> (\<forall>k \<le> length ts. length (recentTweets (on_data env (map Post (take k ts)) w)) \<le> 20)"
proof (intro conjI allI impI)
  from on_data_window [OF assms(1-4)] assms(5)
  show eq: "recentTweets (on_data env (map Post ts) w) = drop (length ts - 20) (map id_str ts)"
    by simp
  from assms(5) show "length (recentTweets (on_data env (map Post ts) w)) = 20"
    unfolding eq by simp
next
  fix k
  have "\<forall>t \<in> set (take k ts). user_id_str (user t) \<in> set (ids w)"
    using assms(1) by (meson in_set_takeD)
  moreover have "distinct (map id_str (take k ts))"
    using assms(2) by (simp add: take_map [symmetric])
  moreover have "set (map id_str (take k ts)) \<inter> set (recentTweets w) = {}"
    using assms(3) by (auto dest: in_set_takeD)
  ultimately have "recentTweets (on_data env (map Post (take k ts)) w) =
       drop (length (recentTweets w @ map id_str (take k ts)) - 20)
         (recentTweets w @ map id_str (take k ts))"
    using on_data_window [of "take k ts" w env] assms(4) by blast
  then show "length (recentTweets (on_data env (map Post (take k ts)) w)) \<le> 20"
    by simp
qed

text \<open>C4 on 21 posts arriving on a window that holds one other id: the last 20 remain.\<close>

theorem dedup_window_keeps_last_20_witness:
  "length (map numbered_tweet [0..<21]) = 21
   \<and> recentTweets example_world = [''1001'']
   \<and> recentTweets (on_data example_env (map Post (map numbered_tweet [0..<21])) example_world)
       = map (\<lambda>n. replicate (Suc n) (CHR ''7'')) [1..<21]"
proof -
  let ?ts = "map numbered_tweet [0..<21]"
  have ids: "map id_str ?ts = map (\<lambda>n. replicate (Suc n) (CHR ''7'')) [0..<21]"
    by (simp add: numbered_tweet_def comp_def)
  have 1: "\<forall>t \<in> set ?ts. user_id_str (user t) \<in> set (ids example_world)"
    by (simp add: numbered_tweet_def example_world_def)
  have "inj_on (\<lambda>n. replicate (Suc n) (CHR ''7'')) (set [0..<21])"
    by (rule inj_onI) (auto dest: arg_cong [where f = length])
  then have 2: "distinct (map id_str ?ts)"
    unfolding ids by (simp add: distinct_map)
  have 3: "set (map id_str ?ts) \<inter> set (recentTweets example_world) = {}"
    unfolding ids by (auto simp: example_world_def)
  have 4: "length (recentTweets example_world) \<le> 20"
    by (simp add: example_world_def)
  have 5: "20 < length ?ts" by simp
  have "drop (length ?ts - 20) (map id_str ?ts) = map (\<lambda>n. replicate (Suc n) (CHR ''7'')) [1..<21]"
    unfolding ids by (simp add: drop_map)
  with dedup_window_keeps_last_20 [OF 1 2 3 4 5, of example_env]
  show ?thesis by (simp add: example_world_def)
qed

subsection \<open>Escaping the media URLs\<close>


text \<open>It is the first occurrence, and there is one whenever the pattern occurs at all.\<close>

lemma split_first_least:
  "split_first p s = Some (b, a) \<Longrightarrow> s = b' @ p @ a' \<Longrightarrow> length b \<le> length b'"
proof (induction s arbitrary: b b')
  case Nil
  then show ?case by (simp split: if_splits)
next
  case (Cons c s)
  show ?case
  proof (cases "take (length p) (c # s) = p")
    case True
    with Cons.prems(1) show ?thesis by simp
  next
    case False
    with Cons.prems(1) obtain b0 where b0: "split_first p s = Some (b0, a)" "b = c # b0"
      by (auto split: option.splits)
    from False Cons.prems(2) have "b' \<noteq> []" by auto
    with Cons.prems(2) obtain b1 where b1: "b' = c # b1" "s = b1 @ p @ a'"
      by (cases b') auto
    from Cons.IH [OF b0(1) b1(2)] b0(2) b1(1) show ?thesis by simp
  qed
qed

lemma split_first_complete:
  "split_first p (b' @ p @ a') \<noteq> None"
proof (induction b')
  case Nil
  show ?case
  proof (cases "p @ a'")
    case Nil
    then show ?thesis by simp
  next
    case (Cons c s)
    then have "take (length p) (c # s) = p" by (metis append_eq_conv_conj)
    with Cons show ?thesis by simp
  qed
next
  case (Cons c b')
  then show ?case by (auto split: option.splits)
qed

lemma get_substitution_plain:
  "CHR ''$'' \<notin> set t \<Longrightarrow> get_substitution m b a t = t"
  by (induction m b a t rule: get_substitution.induct) auto

lemma js_replace_wraps_first:
  assumes "CHR ''$'' \<notin> set u" and "split_first u t = Some (b, a)"
  shows "js_replace t u (''<'' @ u @ ''>'') = b @ ''<'' @ u @ ''>'' @ a"
proof -
  from assms(1) have "CHR ''$'' \<notin> set (''<'' @ u @ ''>'')" by simp
  then have "get_substitution u b a (''<'' @ u @ ''>'') = ''<'' @ u @ ''>''"
    by (rule get_substitution_plain)
  with assms(2) show ?thesis by (simp add: js_replace_def)
qed

text \<open>
  Running the escape step over a list of URLs: \<open>escapedUrls\<close> stays free of
  repetitions, gains exactly the new URLs, and the text is rewritten once per URL gained.
\<close>

lemma escape_urls_fold:
  assumes "distinct esc"
      and "foldl (\<lambda>st u. escape_url u st) (esc, src) us = (esc', src1)"
  shows "distinct esc' \<and> set esc' = set esc \<union> set us
         \<and> (\<exists>new. esc' = esc @ new
                \<and> src1 = foldl (\<lambda>t u. js_replace t u (''<'' @ u @ ''>'')) src new)"
  using assms
proof (induction us arbitrary: esc src)
  case Nil
  then show ?case by simp
next
  case (Cons u us)
  show ?case
  proof (cases "u \<in> set esc")
    case True
    with Cons.prems have "foldl (\<lambda>st u. escape_url u st) (esc, src) us = (esc', src1)"
      by (simp add: escape_url_def)
    from Cons.IH [OF Cons.prems(1) this] True show ?thesis by auto
  next
    case False
    let ?src = "js_replace src u (''<'' @ u @ ''>'')"
    from False Cons.prems
    have f: "foldl (\<lambda>st u. escape_url u st) (esc @ [u], ?src) us = (esc', src1)"
      by (simp add: escape_url_def)
    from False Cons.prems(1) have "distinct (esc @ [u])" by simp
    from Cons.IH [OF this f] obtain new where
      "distinct esc'" "set esc' = set (esc @ [u]) \<union> set us"
      "esc' = (esc @ [u]) @ new"
      "src1 = foldl (\<lambda>t u. js_replace t u (''<'' @ u @ ''>'')) ?src new"
      by blast
    then show ?thesis by (intro conjI exI [of _ "u # new"]) auto
  qed
qed

text \<open>Both loops act on \<open>(escapedUrls, modifiedText)\<close> through the escape step alone.\<close>

lemma photo_loop_escapes:
  "snd (foldl (\<lambda>st m. photo_step m st) st ms) =
     foldl (\<lambda>s u. escape_url u s) (snd st) (map url ms)"
  by (induction ms arbitrary: st) (auto simp: photo_step_def split: prod.splits)

lemma gif_loop_escapes:
  "gif_loop ms st = Inr st' \<Longrightarrow>
     snd st' = foldl (\<lambda>s u. escape_url u s) (snd st) (map url ms)"
proof (induction ms arbitrary: st)
  case Nil
  then show ?case by simp
next
  case (Cons m ms)
  then obtain v where v: "first_variant_url m = Inr v" "gif_loop ms (gif_step v m st) = Inr st'"
    by (auto split: sum.splits)
  from Cons.IH [OF v(2)] show ?case
    by (simp add: gif_step_def split: prod.splits)
qed

lemma extract_media_escapes:
  assumes "extract_media (Some ee) src = Inr (mediaUrls, escapedUrls, modifiedText)"
  shows "foldl (\<lambda>s u. escape_url u s) ([], src)
           (map url (filter (\<lambda>m. media_type m = ''photo'') (media ee)
                     @ filter (\<lambda>m. media_type m = ''animated_gif'') (media ee)))
         = (escapedUrls, modifiedText)"
proof -
  let ?p = "foldl (\<lambda>st m. photo_step m st) ([], [], src)
              (filter (\<lambda>m. media_type m = ''photo'') (media ee))"
  from assms have "gif_loop (filter (\<lambda>m. media_type m = ''animated_gif'') (media ee)) ?p
      = Inr (mediaUrls, escapedUrls, modifiedText)"
    by (simp add: extract_media_def)
  from gif_loop_escapes [OF this]
  show ?thesis by (simp add: photo_loop_escapes)
qed



lemma distinct_singleton_set:
  assumes "distinct xs" and "set xs = {x}"
  shows "xs = [x]"
proof (cases xs)
  case Nil
  with assms show ?thesis by simp
next
  case (Cons y ys)
  with assms have "y = x" "x \<notin> set ys" "set ys \<subseteq> {x}" by auto
  then have "ys = []" by (cases ys) auto
  with Cons \<open>y = x\<close> show ?thesis by simp
qed

text \<open>
  When all media items of a post carry one short URL, as the photos of one post do, the
  result is the source text with the first occurrence wrapped and nothing else changed.
\<close>

lemma single_url_wrapped_once:
  assumes "extract_media (Some ee) src = Inr (mediaUrls, escapedUrls, modifiedText)"
      and "m \<in> set (media ee)"
      and "media_type m = ''photo'' \<or> media_type m = ''animated_gif''"
      and "\<forall>m' \<in> set (media ee). url m' = url m"
      and "CHR ''$'' \<notin> set (url m)"
      and "split_first (url m) src = Some (b, a)"
  shows "escapedUrls = [url m] \<and> modifiedText = b @ ''<'' @ url m @ ''>'' @ a"
proof -
  let ?us = "map url (filter (\<lambda>m. media_type m = ''photo'') (media ee)
                       @ filter (\<lambda>m. media_type m = ''animated_gif'') (media ee))"
  have "distinct ([] :: string list)" by simp
  from escape_urls_fold [OF this extract_media_escapes [OF assms(1)]]
  have d: "distinct escapedUrls" and s: "set escapedUrls = set ?us"
    and t: "modifiedText = foldl (\<lambda>t u. js_replace t u (''<'' @ u @ ''>'')) src escapedUrls"
    by auto
  from assms(2,3) have "url m \<in> set ?us" by auto
  moreover from assms(4) have "set ?us \<subseteq> {url m}" by auto
  ultimately have "set escapedUrls = {url m}" using s by auto
  with d have "escapedUrls = [url m]"
    by (rule distinct_singleton_set)
  with t js_replace_wraps_first [OF assms(5,6)] show ?thesis by simp
qed


subsection \<open>The retention sweep\<close>

lemma stat_callback_events_eq:
  "stat_callback_events fs folder file =
     (case stat fs (path_join folder file) of
        Inl statErr \<Rightarrow> [ConsoleError [LErr statErr]]
      | Inr st \<Rightarrow>
          if ctime st + 2419200000 < clock fs file then
            [Unlink (path_join folder file),
             ConsoleError [case unlink fs (path_join folder file) of None \<Rightarrow> LNull | Some e \<Rightarrow> LErr e]]
          else [])"
  by (simp add: stat_callback_events_def stat_callback_def new_effects_def Let_def split: sum.splits)

lemma stat_callback_effects:
  "stat_callback fs folder file w = w\<lparr>effects := effects w @ stat_callback_events fs folder file\<rparr>"
  by (simp add: stat_callback_events_eq stat_callback_def Let_def emit_def split: sum.splits)

lemma sweep_effects:
  "foldl (\<lambda>w1 file. stat_callback fs folder file w1) w files =
     w\<lparr>effects := effects w @ concat (map (stat_callback_events fs folder) files)\<rparr>"
  by (induction files arbitrary: w) (simp_all add: stat_callback_effects)

lemma path_join_inject [simp]: "path_join folder f = path_join folder g \<longleftrightarrow> f = g"
  by (simp add: path_join_def)

lemma unlink_in_events:
  "Unlink (path_join folder f) \<in> set (stat_callback_events fs folder g) \<longleftrightarrow>
     f = g \<and> (\<exists>st. stat fs (path_join folder g) = Inr st \<and> ctime st + 2419200000 < clock fs g)"
  by (auto simp: stat_callback_events_eq split: sum.splits)

text \<open>
  C7: when the folder can be listed, the sweep asks for the removal of a listed file if
  and only if the file's \<open>stat\<close> succeeds and the clock read in its callback exceeds its
  \<open>ctime\<close> plus 2419200000 ms (28 days); and a file whose \<open>stat\<close> fails has that error
  logged. Both hold for every file of the listing whatever happens to the others: one
  file's failure does not keep the sweep from the rest.
\<close>

theorem removeOldFiles_unlinks_old_files:
  assumes "readdir fs ''./tweets'' = Inr files" and "file \<in> set files"
  shows "(Unlink (path_join ''./tweets'' file) \<in> set (new_effects w (removeOldFiles fs w))) =
           (\<exists>st. stat fs (path_join ''./tweets'' file) = Inr st
                 \<and> ctime st + 2419200000 < clock fs file)
         \<and> (\<forall>e. stat fs (path_join ''./tweets'' file) = Inl e \<longrightarrow>
               ConsoleError [LErr e] \<in> set (new_effects w (removeOldFiles fs w)))"
proof -
  have n: "new_effects w (removeOldFiles fs w) =
      concat (map (stat_callback_events fs ''./tweets'') files)"
    using assms(1) by (simp add: removeOldFiles_def sweep_effects new_effects_def)
  have "(Unlink (path_join ''./tweets'' file) \<in> set (concat (map (stat_callback_events fs ''./tweets'') files))) =
           (\<exists>st. stat fs (path_join ''./tweets'' file) = Inr st
                 \<and> ctime st + 2419200000 < clock fs file)"
    using assms(2) by (auto simp: unlink_in_events)
  moreover have "ConsoleError [LErr e] \<in> set (concat (map (stat_callback_events fs ''./tweets'') files))"
    if "stat fs (path_join ''./tweets'' file) = Inl e" for e
    using that assms(2) by (auto simp: stat_callback_events_eq intro!: bexI [of _ "file"])
  ultimately show ?thesis unfolding n by blast
qed

text \<open>When the folder itself cannot be listed, the error is logged and no file is examined.\<close>

lemma removeOldFiles_readdir_error:
  "readdir fs ''./tweets'' = Inl e \<Longrightarrow>
     new_effects w (removeOldFiles fs w) = [ConsoleError [LErr e]]"
  by (simp add: removeOldFiles_def)

text \<open>
  C7 on the example folder: the old file is unlinked, the recent one is not, and the
  failing \<open>stat\<close> of the file between them is logged.
\<close>

theorem removeOldFiles_unlinks_old_files_witness:
  "Unlink ''tweets/old.json'' \<in> set (new_effects example_world (removeOldFiles example_fs example_world))
   \<and> Unlink ''tweets/new.json'' \<notin> set (new_effects example_world (removeOldFiles example_fs example_world))
   \<and> ConsoleError [LErr (Error ''EACCES'')]
        \<in> set (new_effects example_world (removeOldFiles example_fs example_world))"
proof -
  have r: "readdir example_fs ''./tweets'' = Inr [''old.json'', ''bad.json'', ''new.json'']"
    by (simp add: example_fs_def)
  have p: "path_join ''./tweets'' ''old.json'' = ''tweets/old.json''"
    "path_join ''./tweets'' ''new.json'' = ''tweets/new.json''"
    "path_join ''./tweets'' ''bad.json'' = ''tweets/bad.json''"
    by (simp_all add: path_join_def)
  have s: "stat example_fs ''tweets/old.json'' = Inr \<lparr>ctime = 0\<rparr>"
    "stat example_fs ''tweets/new.json'' = Inr \<lparr>ctime = 1000\<rparr>"
    "stat example_fs ''tweets/bad.json'' = Inl (Error ''EACCES'')"
    "clock example_fs f = 2419200001" for f
    by (simp_all add: example_fs_def)
  from removeOldFiles_unlinks_old_files [OF r, of "''old.json''" example_world]
  have "Unlink ''tweets/old.json'' \<in> set (new_effects example_world (removeOldFiles example_fs example_world))"
    by (simp add: p s)
  moreover from removeOldFiles_unlinks_old_files [OF r, of "''new.json''" example_world]
  have "Unlink ''tweets/new.json'' \<notin> set (new_effects example_world (removeOldFiles example_fs example_world))"
    by (simp add: p s)
  moreover from removeOldFiles_unlinks_old_files [OF r, of "''bad.json''" example_world]
  have "ConsoleError [LErr (Error ''EACCES'')]
        \<in> set (new_effects example_world (removeOldFiles example_fs example_world))"
    by (simp add: p s)
  ultimately show ?thesis by blast
qed

subsection \<open>Connecting\<close>

text \<open>
  Closing: nothing without a connection that has a request; otherwise the transport is
  closed and the handler of \<open>connection aborted\<close> runs, which warns and empties
  \<open>utils.ids\<close>.
\<close>

lemma close_effects:
  "close w =
     (case connection w of
        None \<Rightarrow> w
      | Some c \<Rightarrow>
          (case request c of
             None \<Rightarrow> w
           | Some r \<Rightarrow>
               w\<lparr>ids := [], connection := None,
                  effects := effects w @
                    [TwitterClose, ConsoleWarn [LStr ''twitter: connection aborted'']]\<rparr>))"
  by (simp add: close_def twitter_close_def on_connection_aborted_def emit_def
      split: option.splits)

text \<open>
  C8: \<open>connect\<close> first closes the transport when a connection with a request exists
  (the handler of \<open>connection aborted\<close> then warns and empties \<open>utils.ids\<close>), then
  queries the tracked feeds. When the query resolves, \<open>utils.ids\<close> becomes the ids
  read; if there is none, nothing more happens, otherwise one stream is opened on
  \<open>statuses/filter\<close>, following exactly those ids, with \<open>stall_warnings\<close> set. When the
  query rejects, the error is logged, no stream is opened, and \<open>utils.ids\<close> is as the
  closing left it.
\<close>

theorem connect_closes_reloads_streams:
  "new_effects w (connect env w) =
     (case connection w of
        None \<Rightarrow> []
      | Some c \<Rightarrow>
          (case request c of
             None \<Rightarrow> []
           | Some r \<Rightarrow> [TwitterClose, ConsoleWarn [LStr ''twitter: connection aborted'']]))
     @ FeedsFind #
       (case feeds_find env of
          Resolved results \<Rightarrow>
            ConsoleLog [LStr (''Streaming '' @ show_nat (length results) @ '' twitter feed(s)'')] #
              (if map twitter_id results = [] then []
               else [ConsoleLog [LStr ''Attempting to connect to the Twitter stream API...''],
                     TwitterStream ''statuses/filter'' (map twitter_id results) True])
        | Rejected err \<Rightarrow> [ConsoleError [LStr ''error reading from mongodb'', LErr err]])
   \<and> ids (connect env w) =
       (case feeds_find env of
          Resolved results \<Rightarrow> map twitter_id results
        | Rejected err \<Rightarrow>
            (case connection w of
               None \<Rightarrow> ids w
             | Some c \<Rightarrow> (case request c of None \<Rightarrow> ids w | Some r \<Rightarrow> [])))
   \<and> reload (connect env w) = False"
proof (cases "feeds_find env")
  case (Resolved results)
  then show ?thesis
    by (cases "map twitter_id results = []")
      (simp_all add: connect_def close_effects promise_then_def promise_catch_def
        twitter_stream_def new_effects_def emit_def Let_def split: option.splits)
next
  case (Rejected err)
  then show ?thesis
    by (simp add: connect_def close_effects promise_then_def promise_catch_def
        new_effects_def emit_def Let_def split: option.splits)
qed

text \<open>
  The example: a connection is open and two feeds are tracked. The old connection is
  closed, the ids are reloaded and one stream follows exactly the two ids.
\<close>

lemma connect_example:
  "new_effects connected_world (connect two_feeds_env connected_world) =
     [TwitterClose, ConsoleWarn [LStr ''twitter: connection aborted''], FeedsFind,
      ConsoleLog [LStr ''Streaming 2 twitter feed(s)''],
      ConsoleLog [LStr ''Attempting to connect to the Twitter stream API...''],
      TwitterStream ''statuses/filter'' [''12'', ''34''] True]
   \<and> ids (connect two_feeds_env connected_world) = [''12'', ''34'']"
  by (simp add: connect_def close_effects promise_then_def promise_catch_def
      twitter_stream_def new_effects_def emit_def Let_def connected_world_def
      two_feeds_env_def example_env_def digit_char_def)

end
